theory Spec2Isabelle
  imports Complex_Main
begin

section \<open>The push channel: \<open>utils/websocket.js\<close>\<close>

text \<open>
  The module owns one Socket.IO client object, created with \<open>autoConnect: false\<close>.
  The client reads its \<open>connected\<close> flag, calls \<open>connect()\<close> and
  \<open>disconnect()\<close> on it and registers listeners on it by event name.

  The object belongs to the library \<open>socket.io-client\<close>. Opening the channel is
  asynchronous there: \<open>connect()\<close> only starts the handshake with the server and
  returns, and the flag \<open>connected\<close> turns true when the handshake completes,
  later and outside any call of the client. \<open>connecting\<close> records that a
  handshake has been started and has neither completed nor been cancelled.
\<close>

record 'h socket =
  connected :: bool
  connecting :: bool
  listeners :: "(string \<times> 'h) list"

definition fresh_socket :: "'h socket" where
  "fresh_socket = \<lparr>connected = False, connecting = False, listeners = []\<rparr>"

text \<open>
  \<open>socket.connect()\<close> returns at once on a connected socket, and opens no second
  transport while one is being opened; otherwise it starts the handshake.
  \<open>socket.disconnect()\<close> closes the channel, or cancels the handshake in
  progress. \<open>handshake\<close> is the event that arrives from the network when the
  server has accepted a connection that is still wanted.
\<close>

definition socket_connect :: "'h socket \<Rightarrow> 'h socket" where
  "socket_connect s = (if connected s \<or> connecting s then s else s\<lparr>connecting := True\<rparr>)"

definition socket_disconnect :: "'h socket \<Rightarrow> 'h socket" where
  "socket_disconnect s = s\<lparr>connected := False, connecting := False\<rparr>"

definition handshake :: "'h socket \<Rightarrow> 'h socket" where
  "handshake s = (if connecting s then s\<lparr>connected := True, connecting := False\<rparr> else s)"

text \<open>
  \<^verbatim>\<open>
  export const connectSocket = () => {
      if (!socket.connected) {
          socket.connect();
      }
  };
  export const disconnectSocket = () => {
      if (socket.connected) {
          socket.disconnect();
      }
  };
  \<close>
\<close>

definition connectSocket :: "'h socket \<Rightarrow> 'h socket" where
  "connectSocket s = (if \<not> connected s then socket_connect s else s)"

definition disconnectSocket :: "'h socket \<Rightarrow> 'h socket" where
  "disconnectSocket s = (if connected s then socket_disconnect s else s)"

text \<open>
  The emitter interface of the socket: \<open>socket.on(name, fn)\<close> appends a listener,
  \<open>socket.off(name)\<close> with no function removes every listener of that event.
\<close>

definition socket_on :: "string \<Rightarrow> 'h \<Rightarrow> 'h socket \<Rightarrow> 'h socket" where
  "socket_on name fn s = s\<lparr>listeners := listeners s @ [(name, fn)]\<rparr>"

definition socket_off :: "string \<Rightarrow> 'h socket \<Rightarrow> 'h socket" where
  "socket_off name s = s\<lparr>listeners := filter (\<lambda>l. fst l \<noteq> name) (listeners s)\<rparr>"


section \<open>Weight polling: \<open>HeatmapViewer\<close>, effect 1\<close>

text \<open>
  One run of \<open>fetchWeights\<close> either completes its \<open>try\<close> block or lands in the
  \<open>catch\<close> block (\<open>fetch\<close> rejects, \<open>res.json()\<close> rejects, or a property read
  inside the block throws). A completed run has read \<open>json[layer]\<close> (\<open>None\<close>
  when that value is falsy) and measured \<open>Date.now() - start\<close> in milliseconds.
\<close>

datatype 'd fetch_result = Threw | Returned "'d option" int

record 'd poller =
  isMounted :: bool
  timeoutId :: "int option"
  data :: "'d option"

text \<open>
  \<^verbatim>\<open>
  const duration = Date.now() - start;
  const delay = Math.min(2000, Math.max(500, duration));
  \<close>
\<close>

definition delay :: "int \<Rightarrow> int" where
  "delay duration = min 2000 (max 500 duration)"

definition fetchWeights :: "'d fetch_result \<Rightarrow> 'd poller \<Rightarrow> 'd poller" where
  "fetchWeights r p =
     (case r of
        Returned newData duration \<Rightarrow>
          (let p1 = (if isMounted p \<and> newData \<noteq> None then p\<lparr>data := newData\<rparr> else p)
           in if isMounted p1 then p1\<lparr>timeoutId := Some (delay duration)\<rparr> else p1)
      | Threw \<Rightarrow>
          (if isMounted p then p\<lparr>timeoutId := Some 3000\<rparr> else p))"

text \<open>
  The effect body: \<open>isMounted = true\<close>, no timer yet, and
  \<open>if (isTraining) { fetchWeights(); }\<close>. The displayed data survive from the
  previous render.
\<close>

definition startPolling :: "bool \<Rightarrow> 'd fetch_result \<Rightarrow> 'd option \<Rightarrow> 'd poller" where
  "startPolling isTraining r d =
     (let p = \<lparr>isMounted = True, timeoutId = None, data = d\<rparr>
      in if isTraining then fetchWeights r p else p)"

text \<open>The cleanup of the effect: \<open>isMounted = false; clearTimeout(timeoutId)\<close>.\<close>

definition stopPolling :: "'d poller \<Rightarrow> 'd poller" where
  "stopPolling p = p\<lparr>isMounted := False, timeoutId := None\<rparr>"


section \<open>The application container: \<open>App\<close>\<close>

text \<open>
  The state hooks of \<open>App\<close> that the socket handlers and the start/stop handlers
  write: \<open>status\<close> (\<open>'idle'\<close>, \<open>'training'\<close>, \<open>'complete'\<close>), the latest packet,
  the accumulated history and the log panel. \<open>alert\<close> calls are recorded in
  \<open>alerts\<close>. The type \<open>'m\<close> is the \<open>training_update\<close> packet.
\<close>

record 'm app =
  status :: string
  metrics :: "'m option"
  history :: "'m list"
  logs :: "(string \<times> string) list"
  alerts :: "string list"

definition initial_app :: "'m app" where
  "initial_app = \<lparr>status = ''idle'', metrics = None, history = [], logs = [], alerts = []\<rparr>"

text \<open>
  \<open>addLog\<close> stamps the message with \<open>new Date().toLocaleTimeString()\<close>, here the
  argument \<open>time\<close>, and appends it.
\<close>

definition addLog :: "string \<Rightarrow> string \<Rightarrow> 'm app \<Rightarrow> 'm app" where
  "addLog time msg a = a\<lparr>logs := logs a @ [(time, msg)]\<rparr>"

subsection \<open>The socket handlers\<close>

datatype handler = OnStatus | OnLog | OnTrainingUpdate | OnTrainingComplete

text \<open>
  What the server pushes: \<open>status\<close> with \<open>data.msg\<close>, \<open>log\<close> with
  \<open>data.message\<close>, \<open>training_update\<close> with the packet and \<open>training_complete\<close>.
\<close>

datatype 'm message = Status string | Log string | TrainingUpdate 'm | TrainingComplete

fun event_name :: "'m message \<Rightarrow> string" where
  "event_name (Status _) = ''status''"
| "event_name (Log _) = ''log''"
| "event_name (TrainingUpdate _) = ''training_update''"
| "event_name TrainingComplete = ''training_complete''"

definition event_types :: "string list" where
  "event_types = [''status'', ''log'', ''training_update'', ''training_complete'']"

text \<open>
  The bodies of the four handlers. \<open>every100\<close> is the test \<open>data.batch % 100 === 0\<close>
  and \<open>line\<close> the template literal of the occasional log line, both read from the
  packet.
\<close>

fun run_handler ::
  "('m \<Rightarrow> bool) \<Rightarrow> ('m \<Rightarrow> string) \<Rightarrow> string \<Rightarrow> handler \<Rightarrow> 'm message \<Rightarrow> 'm app \<Rightarrow> 'm app" where
  "run_handler every100 line time OnStatus (Status msg) a = addLog time msg a"
| "run_handler every100 line time OnLog (Log msg) a = addLog time msg a"
| "run_handler every100 line time OnTrainingUpdate (TrainingUpdate d) a =
     (let a1 = a\<lparr>metrics := Some d, history := history a @ [d]\<rparr>
      in if every100 d then addLog time (line d) a1 else a1)"
| "run_handler every100 line time OnTrainingComplete TrainingComplete a =
     addLog time ''Training Complete!'' (a\<lparr>status := ''complete''\<rparr>)"
| "run_handler every100 line time _ _ a = a"

text \<open>A pushed message runs every listener registered under its event name, in order.\<close>

definition deliver ::
  "('m \<Rightarrow> bool) \<Rightarrow> ('m \<Rightarrow> string) \<Rightarrow> string \<Rightarrow> handler socket \<Rightarrow> 'm message \<Rightarrow> 'm app \<Rightarrow> 'm app" where
  "deliver every100 line time s m a =
     fold (\<lambda>l. run_handler every100 line time (snd l) m)
       (filter (\<lambda>l. fst l = event_name m) (listeners s)) a"

subsection \<open>The mount effect and its cleanup\<close>

text \<open>
  \<^verbatim>\<open>
  useEffect(() => {
    if (!socket.connected) {
      connectSocket();
      addLog("Connecting to server...");
    }
    socket.on('status', ...);
    socket.on('log', ...);
    socket.on('training_update', ...);
    socket.on('training_complete', ...);
    return () => {
      socket.off('status');
      socket.off('log');
      socket.off('training_update');
      socket.off('training_complete');
      disconnectSocket();
    };
  }, []);
  \<close>
\<close>

definition App_effect :: "string \<Rightarrow> handler socket \<times> 'm app \<Rightarrow> handler socket \<times> 'm app" where
  "App_effect time sa =
     (let s = fst sa; a = snd sa;
          s1 = (if \<not> connected s then connectSocket s else s);
          a1 = (if \<not> connected s then addLog time ''Connecting to server...'' a else a);
          s2 = socket_on ''status'' OnStatus s1;
          s3 = socket_on ''log'' OnLog s2;
          s4 = socket_on ''training_update'' OnTrainingUpdate s3;
          s5 = socket_on ''training_complete'' OnTrainingComplete s4
      in (s5, a1))"

definition App_cleanup :: "handler socket \<Rightarrow> handler socket" where
  "App_cleanup s =
     disconnectSocket
       (socket_off ''training_complete''
         (socket_off ''training_update''
           (socket_off ''log''
             (socket_off ''status'' s))))"

subsection \<open>\<open>handleStart\<close> and \<open>handleStop\<close>\<close>

text \<open>
  The outcome of \<open>fetch\<close> followed by \<open>response.json()\<close>: the fetch rejects (with
  \<open>error.message\<close>), or it resolves with \<open>response.ok\<close> and a body. The body is
  not JSON (\<open>json()\<close> rejects), or it is \<open>null\<close> (reading a property of it throws a
  TypeError, whose message is carried), or it is a value whose properties
  \<open>message\<close>, \<open>error\<close> and \<open>status\<close> are read (\<open>None\<close> when undefined).
\<close>

datatype reply =
    JsonRejects string
  | JsonNull string
  | JsonObj "string option" "string option" "string option"

datatype start_response = FetchRejects string | Response bool reply

text \<open>\<open>v || d\<close> on an optional string: undefined and the empty string are falsy.\<close>

definition or_else :: "string option \<Rightarrow> string \<Rightarrow> string" where
  "or_else v d = (case v of None \<Rightarrow> d | Some x \<Rightarrow> if x = [] then d else x)"

text \<open>
  \<^verbatim>\<open>
  const handleStart = async () => {
    try {
      addLog(`Starting training with ${appConfig.architecture} on ${appConfig.dataset}...`);
      const response = await fetch(..., { method: 'POST', ..., body: JSON.stringify(appConfig) });
      const data = await response.json();
      if (response.ok) {
        setStatus('training');
        setHistory([]); // Reset charts for new run
      } else {
        const msg = data.message || data.error || data.status || "Unknown error";
        addLog("Error starting: " + msg);
        alert("Error starting: " + msg);
      }
    } catch (error) {
      console.error("Failed to start training:", error);
      addLog("Failed to start training: " + error.message);
    }
  };
  \<close>
  \<open>architecture\<close> and \<open>dataset\<close> are the two interpolated configuration values;
  \<open>t0\<close> and \<open>t1\<close> are the clock readings of the two \<open>addLog\<close> calls.
\<close>

definition handleStart ::
  "string \<Rightarrow> string \<Rightarrow> string \<Rightarrow> string \<Rightarrow> start_response \<Rightarrow> 'm app \<Rightarrow> 'm app" where
  "handleStart t0 t1 architecture dataset r a =
     (let a0 = addLog t0 (''Starting training with '' @ architecture @ '' on '' @ dataset @ ''...'') a
      in case r of
           FetchRejects e \<Rightarrow> addLog t1 (''Failed to start training: '' @ e) a0
         | Response ok (JsonRejects e) \<Rightarrow> addLog t1 (''Failed to start training: '' @ e) a0
         | Response ok (JsonNull e) \<Rightarrow>
             (if ok then a0\<lparr>status := ''training'', history := []\<rparr>
              else addLog t1 (''Failed to start training: '' @ e) a0)
         | Response ok (JsonObj m e s) \<Rightarrow>
             (if ok then a0\<lparr>status := ''training'', history := []\<rparr>
              else (let msg = or_else m (or_else e (or_else s ''Unknown error''));
                        a1 = addLog t1 (''Error starting: '' @ msg) a0
                    in a1\<lparr>alerts := alerts a1 @ [''Error starting: '' @ msg]\<rparr>)))"

text \<open>
  \<^verbatim>\<open>
  const handleStop = async () => {
    try {
      addLog("Stopping training...");
      await fetch(`${config.API_URL}/api/stop-training`, { method: 'POST' });
      setStatus('idle');
      addLog("Training stopped by user.");
    } catch (error) { console.error(...); }
  };
  \<close>
\<close>

definition handleStop :: "string \<Rightarrow> string \<Rightarrow> bool \<Rightarrow> 'm app \<Rightarrow> 'm app" where
  "handleStop t0 t1 fetch_resolves a =
     (let a0 = addLog t0 ''Stopping training...'' a
      in if fetch_resolves then addLog t1 ''Training stopped by user.'' (a0\<lparr>status := ''idle''\<rparr>)
         else a0)"


text \<open>\<open>response.ok\<close>; a rejected fetch has no response at all.\<close>

fun response_ok :: "start_response \<Rightarrow> bool" where
  "response_ok (Response ok _) = ok"
| "response_ok (FetchRejects _) = False"


section \<open>The configuration form: \<open>ControlPanel\<close>\<close>

text \<open>
  The configuration is a JavaScript object written under a computed key, so it is a
  map from property names to values. A value is a string (what a form element
  delivers) or a number; the numbers are those \<open>parseFloat\<close> and \<open>parseInt\<close>
  return, and the two built-ins are parameters of the handler.
\<close>

datatype 'n jsval = JStr string | JNum 'n

type_synonym 'n config = "string \<rightharpoonup> 'n jsval"

text \<open>
  \<^verbatim>\<open>
  const handleChange = (e) => {
      const { name, value } = e.target;
      let finalValue = value;
      if (name === 'lr') finalValue = parseFloat(value);
      if (name === 'epochs' || name === 'batch_size') finalValue = parseInt(value, 10);
      setConfig(prev => ({ ...prev, [name]: finalValue }));
  };
  \<close>
\<close>

definition finalValue :: "(string \<Rightarrow> 'n) \<Rightarrow> (string \<Rightarrow> 'n) \<Rightarrow> string \<Rightarrow> string \<Rightarrow> 'n jsval" where
  "finalValue parseFloat parseInt10 name v =
     (let f0 = JStr v;
          f1 = (if name = ''lr'' then JNum (parseFloat v) else f0);
          f2 = (if name = ''epochs'' \<or> name = ''batch_size'' then JNum (parseInt10 v) else f1)
      in f2)"

definition handleChange ::
  "(string \<Rightarrow> 'n) \<Rightarrow> (string \<Rightarrow> 'n) \<Rightarrow> string \<Rightarrow> string \<Rightarrow> 'n config \<Rightarrow> 'n config" where
  "handleChange parseFloat parseInt10 name v prev =
     prev(name \<mapsto> finalValue parseFloat parseInt10 name v)"

text \<open>
  The form controls that \<open>ControlPanel\<close> renders, top to bottom, each with its
  \<open>name\<close>, element kind, \<open>disabled\<close> attribute and, for a \<open>select\<close>, the values
  of its options. The range input of the learning rate has no \<open>disabled\<close>
  attribute. The last element is the one action button.
\<close>

record control =
  c_name :: string
  c_kind :: string
  c_disabled :: bool
  c_options :: "string list"

definition ControlPanel :: "bool \<Rightarrow> control list" where
  "ControlPanel isTraining =
     [\<lparr>c_name = ''dataset'', c_kind = ''select'', c_disabled = isTraining,
        c_options = [''mnist'', ''fashion-mnist'', ''cifar-10'']\<rparr>,
      \<lparr>c_name = ''architecture'', c_kind = ''select'', c_disabled = isTraining,
        c_options = [''mlp'', ''lenet'', ''resnet'']\<rparr>,
      \<lparr>c_name = ''lr'', c_kind = ''range'', c_disabled = False, c_options = []\<rparr>,
      \<lparr>c_name = ''epochs'', c_kind = ''number'', c_disabled = isTraining, c_options = []\<rparr>,
      \<lparr>c_name = ''batch_size'', c_kind = ''select'', c_disabled = isTraining,
        c_options = [''32'', ''64'', ''128'', ''256'']\<rparr>]"

definition action_button :: "bool \<Rightarrow> string" where
  "action_button isTraining = (if isTraining then ''STOP TRAINING'' else ''START TRAINING'')"

text \<open>
  A user edit of the control called \<open>name\<close>: the browser delivers a change event,
  and so runs \<open>handleChange\<close>, only for a control that is rendered and not disabled.
\<close>

definition user_edit ::
  "(string \<Rightarrow> 'n) \<Rightarrow> (string \<Rightarrow> 'n) \<Rightarrow> control list \<Rightarrow> string \<Rightarrow> string \<Rightarrow> 'n config \<Rightarrow> 'n config" where
  "user_edit parseFloat parseInt10 panel name v prev =
     (case find (\<lambda>c. c_name c = name) panel of
        None \<Rightarrow> prev
      | Some c \<Rightarrow> if c_disabled c then prev else handleChange parseFloat parseInt10 name v prev)"

text \<open>
  Sample readings of the two built-ins on the strings the form delivers, used to run
  the handler on concrete events; the numbers are kept as decimal fractions.
\<close>

definition sample_parseFloat :: "string \<Rightarrow> rat" where
  "sample_parseFloat v = (if v = ''0.01'' then 1 / 100 else if v = ''0.001'' then 1 / 1000 else 0)"

definition sample_parseInt10 :: "string \<Rightarrow> rat" where
  "sample_parseInt10 v =
     (if v = ''32'' then 32 else if v = ''64'' then 64 else if v = ''128'' then 128
      else if v = ''256'' then 256 else if v = ''10'' then 10 else 0)"

text \<open>The initial state of \<open>appConfig\<close> in \<open>App\<close>.\<close>

definition initial_config :: "rat config" where
  "initial_config =
     [''dataset'' \<mapsto> JStr ''mnist'', ''architecture'' \<mapsto> JStr ''mlp'',
      ''lr'' \<mapsto> JNum (1 / 1000), ''epochs'' \<mapsto> JNum 10, ''batch_size'' \<mapsto> JNum 64]"


section \<open>The heatmap: \<open>HeatmapViewer\<close>, effect 2\<close>






section \<open>The layer list: \<open>HeatmapViewer\<close>\<close>

text \<open>
  \<^verbatim>\<open>
  const ARCH_LAYERS = {
      'mlp': [ { id: 'fc1.weight', name: 'FC1 (Input -> Hidden 1)' }, ... ],
      'lenet': [ ... ],
      'resnet': [ ... ]
  };
  \<close>
  The table is an object literal, listed here as pairs of key and layer list, a
  layer being the pair of its \<open>id\<close> and \<open>name\<close>.
\<close>

datatype js_error = TypeError

definition ARCH_LAYERS :: "(string \<times> (string \<times> string) list) list" where
  "ARCH_LAYERS =
     [(''mlp'',
        [(''fc1.weight'', ''FC1 (Input -> Hidden 1)''),
         (''fc2.weight'', ''FC2 (Hidden 1 -> Hidden 2)''),
         (''fc3.weight'', ''FC3 (Hidden 2 -> Output)'')]),
      (''lenet'',
        [(''conv1.weight'', ''Conv1 (Input -> FeatMap 1)''),
         (''conv2.weight'', ''Conv2 (FeatMap 1 -> FeatMap 2)''),
         (''fc1.weight'', ''FC1 (FeatMap -> Hidden)''),
         (''fc2.weight'', ''FC2 (Hidden -> Output)'')]),
      (''resnet'',
        [(''model.conv1.weight'', ''Conv1 (Initial)''),
         (''model.layer1.0.conv1.weight'', ''Block1 Conv1''),
         (''model.layer2.0.conv1.weight'', ''Block2 Conv1''),
         (''model.fc.weight'', ''FC (Final Output)'')])]"

text \<open>
  \<open>ARCH_LAYERS[key]\<close> is a property read on a plain object: it finds the object's
  own three keys and, through the prototype chain, the properties that every object
  inherits from \<open>Object.prototype\<close>. An inherited property is a function (or, for
  \<open>__proto__\<close>, the prototype object): a truthy value that is not a layer list.
\<close>

definition Object_prototype_names :: "string list" where
  "Object_prototype_names =
     [''constructor'', ''__proto__'', ''hasOwnProperty'', ''isPrototypeOf'',
      ''propertyIsEnumerable'', ''toLocaleString'', ''toString'', ''valueOf'',
      ''__defineGetter__'', ''__defineSetter__'', ''__lookupGetter__'', ''__lookupSetter__'']"

datatype property = Undefined | Table "(string \<times> string) list" | Inherited

definition ARCH_LAYERS_get :: "string \<Rightarrow> property" where
  "ARCH_LAYERS_get key =
     (case map_of ARCH_LAYERS key of
        Some t \<Rightarrow> Table t
      | None \<Rightarrow> if key \<in> set Object_prototype_names then Inherited else Undefined)"

text \<open>
  The component sees \<open>appConfig\<close> as \<open>None\<close> when the prop is missing and
  otherwise as its \<open>architecture\<close>, the string used as property key.
  \<^verbatim>\<open>
  const [layer, setLayer] = useState(appConfig && appConfig.architecture === 'lenet'
                                       ? 'conv1.weight' : 'fc1.weight');
  const currentLayers = (appConfig && ARCH_LAYERS[appConfig.architecture]) || ARCH_LAYERS['mlp'];
  useEffect(() => {
      if (appConfig && ARCH_LAYERS[appConfig.architecture]) {
          setLayer(ARCH_LAYERS[appConfig.architecture][0].id);
      }
  }, [appConfig]);
  ...
  {currentLayers.map(l => (<option key={l.id} value={l.id}>{l.name}</option>))}
  \<close>
  \<open>layer_options\<close> is the option list of the layer select, a TypeError when
  \<open>currentLayers\<close> has no \<open>map\<close> method; \<open>layer_effect\<close> is the selected layer
  after the effect has run, a TypeError when the first entry is \<open>undefined\<close>.
\<close>

definition initial_layer :: "string option \<Rightarrow> string" where
  "initial_layer appConfig = (if appConfig = Some ''lenet'' then ''conv1.weight'' else ''fc1.weight'')"

definition currentLayers :: "string option \<Rightarrow> property" where
  "currentLayers appConfig =
     (case appConfig of
        None \<Rightarrow> ARCH_LAYERS_get ''mlp''
      | Some architecture \<Rightarrow>
          (case ARCH_LAYERS_get architecture of
             Undefined \<Rightarrow> ARCH_LAYERS_get ''mlp''
           | p \<Rightarrow> p))"

definition layer_options :: "string option \<Rightarrow> js_error + (string \<times> string) list" where
  "layer_options appConfig =
     (case currentLayers appConfig of Table t \<Rightarrow> Inr t | _ \<Rightarrow> Inl TypeError)"

definition layer_effect :: "string option \<Rightarrow> string \<Rightarrow> js_error + string" where
  "layer_effect appConfig layer =
     (case appConfig of
        None \<Rightarrow> Inr layer
      | Some architecture \<Rightarrow>
          (case ARCH_LAYERS_get architecture of
             Undefined \<Rightarrow> Inr layer
           | Table t \<Rightarrow> (case t of [] \<Rightarrow> Inl TypeError | l # _ \<Rightarrow> Inr (fst l))
           | Inherited \<Rightarrow> Inl TypeError))"


section \<open>The training loop worker\<close>

text \<open>Modelled from the spec: the part of \<open>TrainingConfig\<close> and \<open>Session\<close> (section 3) that the
  Training Loop Worker reads, and its reporting cadence \<open>K\<close> (section 4.3); the worker is not
  among the sources.\<close>

record worker_config =
  epoch_count :: nat
  total_batches :: nat
  report_every :: nat

text \<open>Modelled from the spec: the outcome of one batch of the missing worker (section 4.3): the optimizer
  step completed, a recoverable exception skipped the batch, or a fatal failure.\<close>

datatype step_result = Completed_step | Recoverable_error | Fatal_error

text \<open>Modelled from the spec: what the missing worker finds at a batch boundary (sections 4.2, 4.3):
  no flag, \<open>stop_requested\<close>, or \<open>pause_requested\<close>, which blocks until the flag is
  cleared or until \<open>stop_requested\<close>.\<close>

datatype command = Continue | Stop | Pause_then_resume | Pause_then_stop

text \<open>Modelled from the spec: what the missing worker hands to the publisher (sections 4.3, 4.4, 7): a
  ProgressEvent with its \<open>(epoch, batch)\<close>, a recoverable error log event, the terminal
  error notification, or the terminal completed notification.\<close>

datatype emission =
    ProgressEvent nat nat
  | RecoverableStepError nat nat
  | FatalSessionError
  | TrainingCompleted

text \<open>Modelled from the spec: the reporting step of the missing worker (section 4.3): a skipped batch is
  logged as a recoverable error; a completed batch builds a ProgressEvent every
  \<open>K\<close> batches.\<close>

definition emitted :: "worker_config \<Rightarrow> step_result \<Rightarrow> nat \<Rightarrow> nat \<Rightarrow> emission list" where
  "emitted c r current_epoch current_batch =
     (case r of
        Recoverable_error \<Rightarrow> [RecoverableStepError current_epoch current_batch]
      | _ \<Rightarrow> if current_batch mod report_every c = 0
             then [ProgressEvent current_epoch current_batch] else [])"

text \<open>Modelled from the spec: the check of the missing worker at the batch boundary (section 4.3): it
  exits on \<open>stop_requested\<close>, also when the stop arrives while it is paused.\<close>

definition exits :: "command \<Rightarrow> bool" where
  "exits cmd = (cmd = Stop \<or> cmd = Pause_then_stop)"

text \<open>Modelled from the spec: the loop of the missing Training Loop Worker (section 4.3). Per step:
  draw the next batch, forward and loss, gradient step, every \<open>K\<close> batches hand off a
  ProgressEvent, check \<open>stop_requested\<close> and \<open>pause_requested\<close>, advance
  \<open>current_batch\<close>, wrapping to the next epoch when the batches are exhausted. On
  exhausting \<open>epoch_count\<close> it emits the completed notification; a fatal failure
  stops the session with an error event instead.\<close>

function worker ::
  "worker_config \<Rightarrow> (nat \<Rightarrow> nat \<Rightarrow> step_result) \<Rightarrow> (nat \<Rightarrow> nat \<Rightarrow> command) \<Rightarrow> nat \<Rightarrow> nat \<Rightarrow> emission list" where
  "worker c step ctl current_epoch current_batch =
     (if epoch_count c \<le> current_epoch then [TrainingCompleted]
      else if total_batches c \<le> current_batch then worker c step ctl (current_epoch + 1) 0
      else if step current_epoch current_batch = Fatal_error then [FatalSessionError]
      else emitted c (step current_epoch current_batch) current_epoch current_batch @
           (if exits (ctl current_epoch current_batch) then []
            else worker c step ctl current_epoch (current_batch + 1)))"
  by pat_completeness auto
termination
  by (relation "measures [\<lambda>(c, step, ctl, e, b). epoch_count c - e,
                          \<lambda>(c, step, ctl, e, b). total_batches c - b]") auto

text \<open>The sequence of \<open>(epoch, batch)\<close> pairs of the ProgressEvents in an emission sequence.\<close>

fun progress_events :: "emission list \<Rightarrow> (nat \<times> nat) list" where
  "progress_events [] = []"
| "progress_events (ProgressEvent e b # xs) = (e, b) # progress_events xs"
| "progress_events (_ # xs) = progress_events xs"

text \<open>The order on \<open>(epoch, batch)\<close>: epoch first, then batch.\<close>

definition before :: "nat \<times> nat \<Rightarrow> nat \<times> nat \<Rightarrow> bool" where
  "before p q = (fst p < fst q \<or> (fst p = fst q \<and> snd p < snd q))"

definition not_before :: "nat \<times> nat \<Rightarrow> nat \<times> nat \<Rightarrow> bool" where
  "not_before p q = (fst p < fst q \<or> (fst p = fst q \<and> snd p \<le> snd q))"


section \<open>Results\<close>

subsection \<open>Adaptive polling delay\<close>

lemma delay_bounds: "500 \<le> delay d \<and> delay d \<le> 2000"
  by (simp add: delay_def)

text \<open>
  C6. After a fetch that completed with duration \<open>d\<close>, a mounted viewer waits
  \<open>min(2000, max(500, d))\<close> milliseconds before the next fetch, a value between
  500 and 2000 that equals \<open>d\<close> when \<open>d\<close> is in that range; an effect that runs
  while training is not active fetches nothing and sets no timer.
\<close>

theorem polling_delay_clamped:
  "(isMounted p \<longrightarrow>
      timeoutId (fetchWeights (Returned w d) p) = Some (min 2000 (max 500 d)))
   \<and> timeoutId (startPolling True (Returned w d) old) = Some (min 2000 (max 500 d))
   \<and> 500 \<le> delay d \<and> delay d \<le> 2000
   \<and> (500 \<le> d \<and> d \<le> 2000 \<longrightarrow> delay d = d)
   \<and> startPolling False r old = \<lparr>isMounted = True, timeoutId = None, data = old\<rparr>"
  by (simp add: fetchWeights_def startPolling_def delay_def Let_def)

theorem polling_delay_clamped_witness:
  "isMounted \<lparr>isMounted = True, timeoutId = None, data = None :: nat option\<rparr>
   \<and> timeoutId (fetchWeights (Returned (Some (7::nat)) 120)
        \<lparr>isMounted = True, timeoutId = None, data = None\<rparr>) = Some 500
   \<and> timeoutId (fetchWeights (Returned (Some (7::nat)) 5000)
        \<lparr>isMounted = True, timeoutId = None, data = None\<rparr>) = Some 2000
   \<and> (500 \<le> (730::int) \<and> (730::int) \<le> 2000) \<and> delay 730 = 730"
  using polling_delay_clamped [of "\<lparr>isMounted = True, timeoutId = None, data = None\<rparr>" "Some (7::nat)" 120 None "Threw"]
    polling_delay_clamped [of "\<lparr>isMounted = True, timeoutId = None, data = None\<rparr>" "Some (7::nat)" 5000 None "Threw"]
    polling_delay_clamped [of "\<lparr>isMounted = True, timeoutId = None, data = None :: nat option\<rparr>" "None" 730 None "Threw"]
  by simp

subsection \<open>Connection helpers\<close>



subsection \<open>Starting a run\<close>

lemma handleStart_metrics: "metrics (handleStart t0 t1 ar ds r a) = metrics a"
  by (simp add: handleStart_def addLog_def Let_def split: start_response.split reply.split)

text \<open>
  C3. A start whose response is not ok (or that gets no response) leaves \<open>status\<close>
  and \<open>history\<close> as they were; an ok response whose body parses sets the status
  to \<open>'training'\<close> and empties the history.
\<close>

theorem rejected_start_keeps_state:
  "(\<not> response_ok r \<longrightarrow>
      status (handleStart t0 t1 ar ds r a) = status a
      \<and> history (handleStart t0 t1 ar ds r a) = history a)
   \<and> (status (handleStart t0 t1 ar ds r a) \<noteq> status a
        \<or> history (handleStart t0 t1 ar ds r a) \<noteq> history a \<longrightarrow> response_ok r)
   \<and> ((\<forall>e. r \<noteq> Response True (JsonRejects e)) \<and> response_ok r \<longrightarrow>
        status (handleStart t0 t1 ar ds r a) = ''training''
        \<and> history (handleStart t0 t1 ar ds r a) = [])"
  by (cases r; cases "case r of Response ok b \<Rightarrow> b | _ \<Rightarrow> JsonRejects []")
     (auto simp: handleStart_def addLog_def Let_def)

theorem rejected_start_keeps_state_witness:
  "\<not> response_ok (Response False (JsonObj None (Some ''Training already running'') None))
   \<and> status (handleStart ''10:00:00'' ''10:00:01'' ''mlp'' ''mnist''
        (Response False (JsonObj None (Some ''Training already running'') None))
        \<lparr>status = ''complete'', metrics = Some (3::nat), history = [1, 2, 3], logs = [], alerts = []\<rparr>)
       = ''complete''
   \<and> history (handleStart ''10:00:00'' ''10:00:01'' ''mlp'' ''mnist''
        (Response False (JsonObj None (Some ''Training already running'') None))
        \<lparr>status = ''complete'', metrics = Some (3::nat), history = [1, 2, 3], logs = [], alerts = []\<rparr>)
       = [1, 2, 3]
   \<and> response_ok (Response True (JsonObj None None (Some ''started'')))
   \<and> status (handleStart ''10:00:00'' ''10:00:01'' ''mlp'' ''mnist''
        (Response True (JsonObj None None (Some ''started'')))
        \<lparr>status = ''complete'', metrics = Some (3::nat), history = [1, 2, 3], logs = [], alerts = []\<rparr>)
       = ''training''
   \<and> history (handleStart ''10:00:00'' ''10:00:01'' ''mlp'' ''mnist''
        (Response True (JsonObj None None (Some ''started'')))
        \<lparr>status = ''complete'', metrics = Some (3::nat), history = [1, 2, 3], logs = [], alerts = []\<rparr>)
       = []"
  using rejected_start_keeps_state [of "Response False (JsonObj None (Some ''Training already running'') None)"
      "''10:00:00''" "''10:00:01''" "''mlp''" "''mnist''"
      "\<lparr>status = ''complete'', metrics = Some (3::nat), history = [1, 2, 3], logs = [], alerts = []\<rparr>"]
    rejected_start_keeps_state [of "Response True (JsonObj None None (Some ''started''))"
      "''10:00:00''" "''10:00:01''" "''mlp''" "''mnist''"
      "\<lparr>status = ''complete'', metrics = Some (3::nat), history = [1, 2, 3], logs = [], alerts = []\<rparr>"]
  by simp

subsection \<open>Subscriptions of the event plane\<close>

text \<open>
  The mount effect adds one listener for each of the four event names, in the order
  of \<open>event_types\<close>, whatever the socket carried before; the cleanup removes
  every listener of these four names and keeps the others.
\<close>

lemma App_effect_listeners:
  "listeners (fst (App_effect time (s, a))) =
     listeners s @ [(''status'', OnStatus), (''log'', OnLog),
       (''training_update'', OnTrainingUpdate), (''training_complete'', OnTrainingComplete)]"
  by (simp add: App_effect_def Let_def socket_on_def connectSocket_def socket_connect_def)

lemma App_cleanup_listeners:
  "listeners (App_cleanup s) = filter (\<lambda>l. fst l \<notin> set event_types) (listeners s)"
  by (simp add: App_cleanup_def disconnectSocket_def socket_disconnect_def socket_off_def
      event_types_def conj_commute conj_left_commute)

lemma App_cleanup_after_effect:
  "listeners s = [] \<Longrightarrow> listeners (App_cleanup (fst (App_effect time (s, a)))) = []"
  by (simp add: App_cleanup_listeners App_effect_listeners event_types_def)

text \<open>
  The cleanup closes a channel that is connected; it leaves a handshake in progress
  as it is.
\<close>

lemma App_cleanup_connected:
  "connected s \<Longrightarrow> \<not> connected (App_cleanup s) \<and> \<not> connecting (App_cleanup s)"
  by (simp add: App_cleanup_def disconnectSocket_def socket_disconnect_def socket_off_def)

lemma App_cleanup_pending:
  "\<not> connected s \<Longrightarrow>
   \<not> connected (App_cleanup s) \<and> connecting (App_cleanup s) = connecting s"
  by (simp add: App_cleanup_def disconnectSocket_def socket_off_def)

lemma App_cleanup_then_handshake:
  "\<not> connected s \<Longrightarrow> connecting s \<Longrightarrow> connected (handshake (App_cleanup s))"
  by (simp add: App_cleanup_def disconnectSocket_def socket_off_def handshake_def)

text \<open>
  C4. \<open>App\<close> mounts on the fresh socket: the effect starts the handshake and
  subscribes the four handlers. When the cleanup runs before the handshake has
  completed, it removes the four subscriptions but, the socket being not yet
  connected, calls no \<open>disconnect()\<close>: the handshake stays in progress, and when it
  completes the channel is open with no subscriber. The same cleanup after the
  handshake closes the channel.
\<close>

theorem teardown_leaves_pending_connection:
  "fst (App_effect ''10:00:00'' (fresh_socket, initial_app :: nat app)) =
     \<lparr>connected = False, connecting = True,
      listeners = [(''status'', OnStatus), (''log'', OnLog),
        (''training_update'', OnTrainingUpdate), (''training_complete'', OnTrainingComplete)]\<rparr>
   \<and> App_cleanup (fst (App_effect ''10:00:00'' (fresh_socket, initial_app :: nat app))) =
     \<lparr>connected = False, connecting = True, listeners = []\<rparr>
   \<and> handshake (App_cleanup (fst (App_effect ''10:00:00'' (fresh_socket, initial_app :: nat app)))) =
     \<lparr>connected = True, connecting = False, listeners = []\<rparr>
   \<and> App_cleanup (handshake (fst (App_effect ''10:00:00'' (fresh_socket, initial_app :: nat app)))) =
     \<lparr>connected = False, connecting = False, listeners = []\<rparr>"
  by (simp add: App_effect_def App_cleanup_def Let_def fresh_socket_def connectSocket_def
      disconnectSocket_def socket_connect_def socket_disconnect_def socket_on_def socket_off_def
      handshake_def)

subsection \<open>Editing the configuration\<close>

text \<open>
  C9. A change event with field name \<open>n\<close> and value \<open>v\<close> gives the previous
  configuration with field \<open>n\<close> replaced and every other field as it was; the stored
  value is \<open>parseFloat(v)\<close> for \<open>lr\<close>, \<open>parseInt(v, 10)\<close> for \<open>epochs\<close> and
  \<open>batch_size\<close>, and the string \<open>v\<close> for any other name.
\<close>

theorem handleChange_frame:
  "(\<forall>k. k \<noteq> n \<longrightarrow> handleChange pf pn n v prev k = prev k)
   \<and> handleChange pf pn n v prev n =
       Some (if n = ''lr'' then JNum (pf v)
             else if n = ''epochs'' \<or> n = ''batch_size'' then JNum (pn v)
             else JStr v)"
  by (simp add: handleChange_def finalValue_def Let_def)

theorem handleChange_frame_witness:
  "''epochs'' \<noteq> ''batch_size''
   \<and> handleChange sample_parseFloat sample_parseInt10 ''batch_size'' ''128'' initial_config ''epochs''
       = Some (JNum 10)
   \<and> handleChange sample_parseFloat sample_parseInt10 ''batch_size'' ''128'' initial_config ''batch_size''
       = Some (JNum 128)
   \<and> handleChange sample_parseFloat sample_parseInt10 ''dataset'' ''cifar-10'' initial_config ''dataset''
       = Some (JStr ''cifar-10'')
   \<and> handleChange sample_parseFloat sample_parseInt10 ''lr'' ''0.01'' initial_config ''lr''
       = Some (JNum (1 / 100))"
  using handleChange_frame [of "''batch_size''" sample_parseFloat sample_parseInt10 "''128''" initial_config]
    handleChange_frame [of "''dataset''" sample_parseFloat sample_parseInt10 "''cifar-10''" initial_config]
    handleChange_frame [of "''lr''" sample_parseFloat sample_parseInt10 "''0.01''" initial_config]
  by (simp add: initial_config_def sample_parseFloat_def sample_parseInt10_def)

text \<open>
  C5. In a render with \<open>isTraining\<close> true, the \<open>dataset\<close> and \<open>architecture\<close>
  selects are rendered disabled, so a user edit of either leaves the configuration
  as it was; in a render with \<open>isTraining\<close> false both edits reach \<open>handleChange\<close>.
\<close>

theorem dataset_architecture_locked:
  "(isTraining \<longrightarrow>
      (\<forall>c \<in> set (ControlPanel isTraining).
         c_name c = ''dataset'' \<or> c_name c = ''architecture'' \<longrightarrow> c_disabled c)
      \<and> user_edit pf pn (ControlPanel isTraining) ''dataset'' v prev = prev
      \<and> user_edit pf pn (ControlPanel isTraining) ''architecture'' v prev = prev)
   \<and> (\<not> isTraining \<longrightarrow>
      user_edit pf pn (ControlPanel isTraining) ''dataset'' v prev
        = handleChange pf pn ''dataset'' v prev
      \<and> user_edit pf pn (ControlPanel isTraining) ''architecture'' v prev
        = handleChange pf pn ''architecture'' v prev)
   \<and> [c \<leftarrow> ControlPanel isTraining. c_name c = ''dataset'' \<or> c_name c = ''architecture'']
       = [\<lparr>c_name = ''dataset'', c_kind = ''select'', c_disabled = isTraining,
            c_options = [''mnist'', ''fashion-mnist'', ''cifar-10'']\<rparr>,
          \<lparr>c_name = ''architecture'', c_kind = ''select'', c_disabled = isTraining,
            c_options = [''mlp'', ''lenet'', ''resnet'']\<rparr>]"
  by (simp add: ControlPanel_def user_edit_def)

theorem dataset_architecture_locked_witness:
  "user_edit sample_parseFloat sample_parseInt10 (ControlPanel True) ''dataset'' ''cifar-10'' initial_config
     = initial_config
   \<and> user_edit sample_parseFloat sample_parseInt10 (ControlPanel True) ''architecture'' ''resnet'' initial_config
     = initial_config
   \<and> user_edit sample_parseFloat sample_parseInt10 (ControlPanel False) ''architecture'' ''resnet'' initial_config
       ''architecture'' = Some (JStr ''resnet'')"
  using dataset_architecture_locked [of True sample_parseFloat sample_parseInt10 "''cifar-10''" initial_config]
    dataset_architecture_locked [of True sample_parseFloat sample_parseInt10 "''resnet''" initial_config]
    dataset_architecture_locked [of False sample_parseFloat sample_parseInt10 "''resnet''" initial_config]
  by (simp add: handleChange_def finalValue_def)

text \<open>
  C1. In a render with \<open>isTraining\<close> true the batch-size select is disabled, like the
  epochs input, and only the learning-rate slider stays editable: a user edit of
  the batch size during a run changes nothing, while the same edit outside a run
  stores the new value.
\<close>

theorem batch_size_locked_while_training:
  "user_edit sample_parseFloat sample_parseInt10 (ControlPanel True) ''batch_size'' ''128'' initial_config
     = initial_config
   \<and> user_edit sample_parseFloat sample_parseInt10 (ControlPanel False) ''batch_size'' ''128'' initial_config
       ''batch_size'' = Some (JNum 128)
   \<and> user_edit sample_parseFloat sample_parseInt10 (ControlPanel True) ''lr'' ''0.01'' initial_config
       ''lr'' = Some (JNum (1 / 100))
   \<and> map c_name [c \<leftarrow> ControlPanel True. \<not> c_disabled c] = [''lr'']"
  by (simp add: ControlPanel_def user_edit_def handleChange_def finalValue_def
      sample_parseFloat_def sample_parseInt10_def)

subsection \<open>Heatmap colours\<close>



















subsection \<open>Layer tables\<close>

lemma ARCH_LAYERS_get_unknown:
  "a \<notin> set (map fst ARCH_LAYERS) \<Longrightarrow> a \<notin> set Object_prototype_names \<Longrightarrow>
   ARCH_LAYERS_get a = Undefined"
  by (simp add: ARCH_LAYERS_get_def map_of_eq_None_iff [THEN iffD2])

lemma layer_effect_unrecognized:
  "a \<notin> set (map fst ARCH_LAYERS) \<Longrightarrow> a \<notin> set Object_prototype_names \<Longrightarrow>
   layer_effect (Some a) layer = Inr layer"
  by (simp add: layer_effect_def ARCH_LAYERS_get_unknown)

text \<open>
  C7. \<open>constructor\<close> is none of the three architectures, yet the table object
  has a property of that name, inherited from \<open>Object.prototype\<close>: the read
  \<open>ARCH_LAYERS[appConfig.architecture]\<close> is truthy, the fallback
  \<open>|| ARCH_LAYERS['mlp']\<close> is not taken, and neither the option list of the layer
  select nor the reset of the selected layer can be computed. A name that the
  table object does not know, such as \<open>vgg\<close>, does get the \<open>mlp\<close> table.
\<close>

theorem inherited_name_no_fallback:
  "''constructor'' \<notin> set (map fst ARCH_LAYERS)
   \<and> currentLayers (Some ''constructor'') = Inherited
   \<and> layer_options (Some ''constructor'') = Inl TypeError
   \<and> layer_effect (Some ''constructor'') ''fc1.weight'' = Inl TypeError
   \<and> layer_options (Some ''constructor'') \<noteq> layer_options (Some ''mlp'')
   \<and> layer_options (Some ''vgg'') = layer_options (Some ''mlp'')
   \<and> layer_options (Some ''mlp'') =
       Inr [(''fc1.weight'', ''FC1 (Input -> Hidden 1)''),
            (''fc2.weight'', ''FC2 (Hidden 1 -> Hidden 2)''),
            (''fc3.weight'', ''FC3 (Hidden 2 -> Output)'')]"
  by (simp add: layer_options_def layer_effect_def currentLayers_def ARCH_LAYERS_get_def
      ARCH_LAYERS_def Object_prototype_names_def)

text \<open>
  What holds of the table: it lists for \<open>mlp\<close>, \<open>lenet\<close> and \<open>resnet\<close> the
  layer names below; for each of the three the layer select offers that table and the
  effect resets the selected layer to its first entry; a name that is neither a key
  of the table nor inherited (and a missing \<open>appConfig\<close>) gets the option list of
  \<open>mlp\<close>.
\<close>

lemma layer_tables:
  "map (\<lambda>(k, t). (k, map fst t)) ARCH_LAYERS =
       [(''mlp'', [''fc1.weight'', ''fc2.weight'', ''fc3.weight'']),
        (''lenet'', [''conv1.weight'', ''conv2.weight'', ''fc1.weight'', ''fc2.weight'']),
        (''resnet'', [''model.conv1.weight'', ''model.layer1.0.conv1.weight'',
                      ''model.layer2.0.conv1.weight'', ''model.fc.weight''])]
   \<and> (map_of ARCH_LAYERS a = Some t \<longrightarrow> layer_options (Some a) = Inr t)
   \<and> layer_effect (Some ''mlp'') layer = Inr ''fc1.weight''
   \<and> layer_effect (Some ''lenet'') layer = Inr ''conv1.weight''
   \<and> layer_effect (Some ''resnet'') layer = Inr ''model.conv1.weight''
   \<and> (a \<notin> set (map fst ARCH_LAYERS) \<and> a \<notin> set Object_prototype_names \<longrightarrow>
        layer_options (Some a) = layer_options (Some ''mlp''))
   \<and> layer_options None = layer_options (Some ''mlp'')
   \<and> map fst ARCH_LAYERS = [''mlp'', ''lenet'', ''resnet'']"
proof -
  have own: "map_of ARCH_LAYERS a = Some t \<longrightarrow> layer_options (Some a) = Inr t"
    by (simp add: ARCH_LAYERS_get_def layer_options_def currentLayers_def)
  have unknown: "a \<notin> set (map fst ARCH_LAYERS) \<and> a \<notin> set Object_prototype_names \<longrightarrow>
        layer_options (Some a) = layer_options (Some ''mlp'')"
    by (auto simp: ARCH_LAYERS_get_unknown layer_options_def currentLayers_def)
       (simp_all add: ARCH_LAYERS_get_def ARCH_LAYERS_def)
  have rest: "map (\<lambda>(k, t). (k, map fst t)) ARCH_LAYERS =
       [(''mlp'', [''fc1.weight'', ''fc2.weight'', ''fc3.weight'']),
        (''lenet'', [''conv1.weight'', ''conv2.weight'', ''fc1.weight'', ''fc2.weight'']),
        (''resnet'', [''model.conv1.weight'', ''model.layer1.0.conv1.weight'',
                      ''model.layer2.0.conv1.weight'', ''model.fc.weight''])]
   \<and> layer_effect (Some ''mlp'') layer = Inr ''fc1.weight''
   \<and> layer_effect (Some ''lenet'') layer = Inr ''conv1.weight''
   \<and> layer_effect (Some ''resnet'') layer = Inr ''model.conv1.weight''
   \<and> layer_options None = layer_options (Some ''mlp'')
   \<and> map fst ARCH_LAYERS = [''mlp'', ''lenet'', ''resnet'']"
    by (simp add: ARCH_LAYERS_def ARCH_LAYERS_get_def layer_options_def currentLayers_def
        layer_effect_def)
  from own unknown rest show ?thesis by blast
qed

lemma layer_tables_example:
  "map_of ARCH_LAYERS ''lenet'' =
     Some [(''conv1.weight'', ''Conv1 (Input -> FeatMap 1)''),
           (''conv2.weight'', ''Conv2 (FeatMap 1 -> FeatMap 2)''),
           (''fc1.weight'', ''FC1 (FeatMap -> Hidden)''),
           (''fc2.weight'', ''FC2 (Hidden -> Output)'')]
   \<and> layer_options (Some ''lenet'') =
     Inr [(''conv1.weight'', ''Conv1 (Input -> FeatMap 1)''),
           (''conv2.weight'', ''Conv2 (FeatMap 1 -> FeatMap 2)''),
           (''fc1.weight'', ''FC1 (FeatMap -> Hidden)''),
           (''fc2.weight'', ''FC2 (Hidden -> Output)'')]
   \<and> ''vgg'' \<notin> set (map fst ARCH_LAYERS) \<and> ''vgg'' \<notin> set Object_prototype_names
   \<and> layer_options (Some ''vgg'') = layer_options (Some ''mlp'')
   \<and> layer_options (Some ''mlp'') =
     Inr [(''fc1.weight'', ''FC1 (Input -> Hidden 1)''),
          (''fc2.weight'', ''FC2 (Hidden 1 -> Hidden 2)''),
          (''fc3.weight'', ''FC3 (Hidden 2 -> Output)'')]"
  using layer_tables [of "''lenet''" "[(''conv1.weight'', ''Conv1 (Input -> FeatMap 1)''),
           (''conv2.weight'', ''Conv2 (FeatMap 1 -> FeatMap 2)''),
           (''fc1.weight'', ''FC1 (FeatMap -> Hidden)''),
           (''fc2.weight'', ''FC2 (Hidden -> Output)'')]" "''fc1.weight''"]
    layer_tables [of "''vgg''" "[]" "''fc1.weight''"]
  by (simp add: ARCH_LAYERS_def Object_prototype_names_def layer_options_def currentLayers_def
      ARCH_LAYERS_get_def)

subsection \<open>Order of the progress events\<close>

declare worker.simps [simp del]

lemma progress_events_append: "progress_events (xs @ ys) = progress_events xs @ progress_events ys"
  by (induction xs rule: progress_events.induct) auto

lemma progress_events_emitted:
  "progress_events (emitted c r e b) = [] \<or> progress_events (emitted c r e b) = [(e, b)]"
  by (simp add: emitted_def split: step_result.split)

lemma not_before_step: "not_before (e, b + 1) p \<Longrightarrow> before (e, b) p"
  by (auto simp: before_def not_before_def)

lemma not_before_wrap: "not_before (e + 1, 0) p \<Longrightarrow> not_before (e, b) p"
  by (auto simp: not_before_def)

lemma worker_from:
  "p \<in> set (progress_events (worker c step ctl e b)) \<Longrightarrow> not_before (e, b) p"
proof (induction c step ctl e b rule: worker.induct)
  case (1 c step ctl e b)
  show ?case
  proof (cases "epoch_count c \<le> e")
    case True
    with "1.prems" show ?thesis by (simp add: worker.simps [of c step ctl e b])
  next
    case running: False
    show ?thesis
    proof (cases "total_batches c \<le> b")
      case True
      with running "1.prems" have "p \<in> set (progress_events (worker c step ctl (e + 1) 0))"
        by (simp add: worker.simps [of c step ctl e b])
      then have "not_before (e + 1, 0) p"
        by (rule "1.IH"(1) [OF running True])
      then show ?thesis by (rule not_before_wrap)
    next
      case inside: False
      show ?thesis
      proof (cases "step e b = Fatal_error")
        case True
        with running inside "1.prems" show ?thesis
          by (simp add: worker.simps [of c step ctl e b])
      next
        case ok: False
        from running inside ok "1.prems"
        have mem: "p \<in> set (progress_events (emitted c (step e b) e b))
            \<or> (\<not> exits (ctl e b) \<and> p \<in> set (progress_events (worker c step ctl e (b + 1))))"
          by (auto simp: worker.simps [of c step ctl e b] progress_events_append split: if_splits)
        then show ?thesis
        proof
          assume "p \<in> set (progress_events (emitted c (step e b) e b))"
          with progress_events_emitted [of c "step e b" e b] have "p = (e, b)" by auto
          then show ?thesis by (simp add: not_before_def)
        next
          assume rest: "\<not> exits (ctl e b) \<and> p \<in> set (progress_events (worker c step ctl e (b + 1)))"
          then have "not_before (e, b + 1) p"
            using "1.IH"(2) [OF running inside ok] by blast
          then show ?thesis by (auto simp: not_before_def)
        qed
      qed
    qed
  qed
qed

lemma worker_sorted:
  "sorted_wrt before (progress_events (worker c step ctl e b))"
proof (induction c step ctl e b rule: worker.induct)
  case (1 c step ctl e b)
  show ?case
  proof (cases "epoch_count c \<le> e")
    case True
    then show ?thesis by (simp add: worker.simps [of c step ctl e b])
  next
    case running: False
    show ?thesis
    proof (cases "total_batches c \<le> b")
      case True
      with running "1.IH"(1) show ?thesis
        by (simp add: worker.simps [of c step ctl e b])
    next
      case inside: False
      show ?thesis
      proof (cases "step e b = Fatal_error")
        case True
        with running inside show ?thesis
          by (simp add: worker.simps [of c step ctl e b])
      next
        case ok: False
        show ?thesis
        proof (cases "exits (ctl e b)")
          case True
          with running inside ok progress_events_emitted [of c "step e b" e b] show ?thesis
            by (auto simp: worker.simps [of c step ctl e b] progress_events_append)
        next
          case False
          have later: "\<forall>p \<in> set (progress_events (worker c step ctl e (b + 1))). before (e, b) p"
            using worker_from [of _ c step ctl e "b + 1"] not_before_step by blast
          have rest: "sorted_wrt before (progress_events (worker c step ctl e (b + 1)))"
            by (rule "1.IH"(2) [OF running inside ok False])
          from running inside ok False later rest progress_events_emitted [of c "step e b" e b]
          show ?thesis
            by (auto simp: worker.simps [of c step ctl e b] progress_events_append)
        qed
      qed
    qed
  qed
qed

lemma sorted_before_distinct: "sorted_wrt before xs \<Longrightarrow> distinct xs"
  by (induction xs) (auto simp: before_def)

text \<open>
  C2. From any position \<open>(current_epoch, current_batch)\<close>, whatever the batches do
  and whatever commands arrive, the \<open>(epoch, batch)\<close> pairs of the ProgressEvents
  that one run of the worker emits are strictly increasing in emission order, epoch
  first and then batch; so no pair occurs twice.
\<close>

theorem progress_events_increasing:
  "sorted_wrt before (progress_events (worker c step ctl e b))
   \<and> distinct (progress_events (worker c step ctl e b))"
  using worker_sorted [of c step ctl e b] sorted_before_distinct by blast

lemma worker_run_example:
  "worker \<lparr>epoch_count = 2, total_batches = 5, report_every = 2\<rparr>
     (\<lambda>e b. if b = 2 then Recoverable_error else Completed_step)
     (\<lambda>e b. if e = 1 \<and> b = 3 then Stop else if b = 1 then Pause_then_resume else Continue) 0 0
   = [ProgressEvent 0 0, RecoverableStepError 0 2, ProgressEvent 0 4,
      ProgressEvent 1 0, RecoverableStepError 1 2]"
  by (simp add: worker.simps emitted_def exits_def)

end
